theory Spec2Isabelle
  imports Main
begin

section \<open>Python values used by the chat subsystem\<close>

text \<open>
  A Python \<open>str\<close> is a sequence of Unicode code points, so it is modelled as a list of
  naturals. \<open>py\<close> turns an ASCII literal into such a string. Byte strings that leave the
  program (the body handed to the broker, queue names) are HOL strings.
\<close>

type_synonym pystr = "nat list"

definition py :: "string \<Rightarrow> pystr" where
  "py s = map of_char s"

text \<open>The code points for which \<open>str.isspace\<close> holds; \<open>str.strip()\<close> removes them
  from both ends.\<close>

definition isspace :: "nat \<Rightarrow> bool" where
  "isspace c \<longleftrightarrow> c \<in> set [9, 10, 11, 12, 13, 28, 29, 30, 31, 32, 133, 160, 5760,
     8192, 8193, 8194, 8195, 8196, 8197, 8198, 8199, 8200, 8201, 8202,
     8232, 8233, 8239, 8287, 12288]"

definition strip :: "pystr \<Rightarrow> pystr" where
  "strip s = rev (dropWhile isspace (rev (dropWhile isspace s)))"

text \<open>Truthiness of a string: \<open>not s\<close> holds exactly for the empty string.\<close>

definition truthy :: "pystr \<Rightarrow> bool" where
  "truthy s \<longleftrightarrow> s \<noteq> []"

subsection \<open>Naive datetimes\<close>

text \<open>
  A naive \<open>datetime\<close> is the number of microseconds since 0001-01-01T00:00:00, a
  \<open>timedelta\<close> a number of microseconds; subtraction and comparison are those of the
  integers. Every \<open>datetime.utcnow()\<close> of one call is read as the same instant \<open>now\<close>,
  which the model takes as an argument.
\<close>

type_synonym datetime = int
type_synonym timedelta = int

definition minutes :: "int \<Rightarrow> timedelta" where
  "minutes n = n * 60000000"

definition hours :: "int \<Rightarrow> timedelta" where
  "hours n = n * 3600000000"

function decimal :: "int \<Rightarrow> string" where
  "decimal n = (if n < 10 then [char_of (48 + n)]
                else decimal (n div 10) @ [char_of (48 + n mod 10)])"
  by pat_completeness auto
termination
  by (relation "measure nat") auto

declare decimal.simps [simp del]

definition zero_pad :: "nat \<Rightarrow> int \<Rightarrow> string" where
  "zero_pad w n = replicate (w - length (decimal n)) (CHR ''0'') @ decimal n"

definition days_before_month :: "int \<Rightarrow> int" where
  "days_before_month m = [0, 0, 31, 59, 90, 120, 151, 181, 212, 243, 273, 304, 334] ! nat m"

definition days_in_month :: "int \<Rightarrow> int" where
  "days_in_month m = [0, 31, 28, 31, 30, 31, 30, 31, 31, 30, 31, 30, 31] ! nat m"

text \<open>The standard library's conversion of a proleptic Gregorian ordinal (day 1 is
  0001-01-01) to year, month and day.\<close>

definition ord2ymd :: "int \<Rightarrow> int \<times> int \<times> int" where
  "ord2ymd ordinal =
     (let n0 = ordinal - 1;
          n400 = n0 div 146097; n1 = n0 mod 146097;
          n100 = n1 div 36524; n2 = n1 mod 36524;
          n4 = n2 div 1461; n3 = n2 mod 1461;
          n1y = n3 div 365; n = n3 mod 365;
          year = n400 * 400 + 1 + n100 * 100 + n4 * 4 + n1y
      in if n1y = 4 \<or> n100 = 4 then (year - 1, 12, 31)
         else
           let leapyear = (n1y = 3 \<and> (n100 = 3 \<or> n4 \<noteq> 24));
               month = (n + 50) div 32;
               preceding = days_before_month month + (if month > 2 \<and> leapyear then 1 else 0)
           in if preceding > n
              then let month' = month - 1;
                       preceding' = preceding -
                         (days_in_month month' + (if month' = 2 \<and> leapyear then 1 else 0))
                   in (year, month', n - preceding' + 1)
              else (year, month, n - preceding + 1))"

text \<open>\<open>datetime.isoformat()\<close> of a naive datetime: the fraction is printed only when the
  microseconds are not zero.\<close>

definition isoformat :: "datetime \<Rightarrow> pystr" where
  "isoformat t =
     (let (y, m, d) = ord2ymd (t div 86400000000 + 1);
          r = t mod 86400000000;
          hh = r div 3600000000;
          mm = (r mod 3600000000) div 60000000;
          ss = (r mod 60000000) div 1000000;
          f = r mod 1000000
      in py (zero_pad 4 y @ ''-'' @ zero_pad 2 m @ ''-'' @ zero_pad 2 d @ ''T'' @
             zero_pad 2 hh @ '':'' @ zero_pad 2 mm @ '':'' @ zero_pad 2 ss @
             (if f = 0 then [] else ''.'' @ zero_pad 6 f)))"

subsection \<open>json.dumps of a flat dictionary\<close>

datatype jvalue = JNull | JInt int | JStr pystr

text \<open>A \<open>dict\<close> keeps its keys in insertion order: an association list.\<close>

type_synonym pydict = "(string \<times> jvalue) list"

definition hexdigit :: "nat \<Rightarrow> char" where
  "hexdigit n = ''0123456789abcdef'' ! n"

definition hex4 :: "nat \<Rightarrow> string" where
  "hex4 n = [hexdigit (n div 4096 mod 16), hexdigit (n div 256 mod 16),
             hexdigit (n div 16 mod 16), hexdigit (n mod 16)]"

text \<open>The escaping of \<open>json.dumps\<close> with its default \<open>ensure_ascii=True\<close>: every code
  point outside the printable ASCII range is written as a \<open>\u\<close> escape, code points beyond
  the basic plane as a surrogate pair.\<close>

definition escape_char :: "nat \<Rightarrow> string" where
  "escape_char c =
     (if c = 34 then [CHR 0x5C, CHR 0x22]
      else if c = 92 then [CHR 0x5C, CHR 0x5C]
      else if c = 10 then [CHR 0x5C, CHR ''n'']
      else if c = 13 then [CHR 0x5C, CHR ''r'']
      else if c = 9 then [CHR 0x5C, CHR ''t'']
      else if c = 8 then [CHR 0x5C, CHR ''b'']
      else if c = 12 then [CHR 0x5C, CHR ''f'']
      else if 32 \<le> c \<and> c \<le> 126 then [char_of c]
      else if c < 65536 then [CHR 0x5C, CHR ''u''] @ hex4 c
      else let v = c - 65536
           in [CHR 0x5C, CHR ''u''] @ hex4 (55296 + v div 1024 mod 1024) @
              [CHR 0x5C, CHR ''u''] @ hex4 (56320 + v mod 1024))"

definition encode_basestring_ascii :: "pystr \<Rightarrow> string" where
  "encode_basestring_ascii s = [CHR 0x22] @ concat (map escape_char s) @ [CHR 0x22]"

definition dumps_int :: "int \<Rightarrow> string" where
  "dumps_int i = (if i < 0 then ''-'' @ decimal (- i) else decimal i)"

fun dumps_value :: "jvalue \<Rightarrow> string" where
  "dumps_value JNull = ''null''"
| "dumps_value (JInt i) = dumps_int i"
| "dumps_value (JStr s) = encode_basestring_ascii s"

definition dumps_item :: "string \<times> jvalue \<Rightarrow> string" where
  "dumps_item kv = encode_basestring_ascii (py (fst kv)) @ '': '' @ dumps_value (snd kv)"

fun join :: "string \<Rightarrow> string list \<Rightarrow> string" where
  "join sep [] = []"
| "join sep [x] = x"
| "join sep (x # y # ys) = x @ sep @ join sep (y # ys)"

definition json_dumps :: "pydict \<Rightarrow> string" where
  "json_dumps d = ''{'' @ join '', '' (map dumps_item d) @ ''}''"

section \<open>The relational store\<close>

text \<open>
  The tables of \<open>messages/models.py\<close>; the three tables share column names, so every
  field carries its table as a prefix. A table is the list of its rows in the order in
  which the store returns them to a query without \<open>ORDER BY\<close>; SQL leaves that order to
  the store, so nothing in the model assumes that it is the order of the ids. The
  timestamps of a session are set by every path that creates one and are not optional
  here; \<open>created_at\<close> of a message is, because the code tests it. Each table draws its
  integer primary key from a sequence of the store, of which the model keeps the last
  value handed out.
\<close>

datatype MessageRole = LEAD | BOT | MANAGER

record Message =
  msg_id :: int
  msg_text :: pystr
  msg_sender :: pystr
  msg_role :: MessageRole
  msg_session_id :: pystr
  msg_created_at :: "datetime option"
  is_sent_to_rabbitmq :: bool
  is_processed_by_bot :: bool

record Session =
  sess_id :: int
  sess_session_id :: pystr
  sess_user_id :: pystr
  sess_created_at :: datetime
  sess_last_active :: datetime

record Lead =
  lead_id :: int
  first_name :: "pystr option"
  last_name :: "pystr option"
  lead_session_id :: pystr

record database =
  sessions :: "Session list"
  leads :: "Lead list"
  messages :: "Message list"
  sessions_id_seq :: int
  leads_id_seq :: int
  messages_id_seq :: int

datatype error =
    HTTPException nat
  | RequestValidationError
  | ValueError
  | KeyError
  | IntegrityError
  | DataError
  | MultipleResultsFound
  | InvalidRequestError
  | AMQPError

text \<open>
  An \<open>AsyncSession\<close> works on a transaction: \<open>pending\<close> is the state the open
  transaction sees and writes, \<open>stored\<close> the committed state. \<open>commit\<close> makes the pending
  state durable, \<open>rollback\<close> discards what has not been committed. Every request gets a
  session of its own from the dependency, \<open>open_session\<close>.
\<close>

record AsyncSession =
  stored :: database
  pending :: database

definition open_session :: "database \<Rightarrow> AsyncSession" where
  "open_session d = \<lparr>stored = d, pending = d\<rparr>"

definition commit :: "AsyncSession \<Rightarrow> AsyncSession" where
  "commit db = db\<lparr>stored := pending db\<rparr>"

definition rollback :: "AsyncSession \<Rightarrow> AsyncSession" where
  "rollback db = db\<lparr>pending := stored db\<rparr>"

text \<open>\<open>result.scalars().first()\<close>: the first row of the result, or \<open>None\<close>.\<close>

definition first :: "'a list \<Rightarrow> 'a option" where
  "first rows = (case rows of [] \<Rightarrow> None | r # _ \<Rightarrow> Some r)"

text \<open>\<open>result.scalar_one_or_none()\<close> raises when the query has more than one row.\<close>

definition scalar_one_or_none :: "'a list \<Rightarrow> error + 'a option" where
  "scalar_one_or_none rows =
     (case rows of [] \<Rightarrow> Inr None | [r] \<Rightarrow> Inr (Some r) | _ \<Rightarrow> Inl MultipleResultsFound)"

text \<open>
  Drawing the next value of a sequence. A sequence is not part of any transaction: the
  value is gone for the committed state as well, whatever becomes of the insert that drew
  it, and no rollback brings it back.
\<close>

definition nextval_messages :: "AsyncSession \<Rightarrow> int \<times> AsyncSession" where
  "nextval_messages db =
     (let n = messages_id_seq (stored db) + 1
      in (n, db\<lparr>stored := (stored db)\<lparr>messages_id_seq := n\<rparr>,
                pending := (pending db)\<lparr>messages_id_seq := n\<rparr>\<rparr>))"

definition nextval_sessions :: "AsyncSession \<Rightarrow> int \<times> AsyncSession" where
  "nextval_sessions db =
     (let n = sessions_id_seq (stored db) + 1
      in (n, db\<lparr>stored := (stored db)\<lparr>sessions_id_seq := n\<rparr>,
                pending := (pending db)\<lparr>sessions_id_seq := n\<rparr>\<rparr>))"

definition nextval_leads :: "AsyncSession \<Rightarrow> int \<times> AsyncSession" where
  "nextval_leads db =
     (let n = leads_id_seq (stored db) + 1
      in (n, db\<lparr>stored := (stored db)\<lparr>leads_id_seq := n\<rparr>,
                pending := (pending db)\<lparr>leads_id_seq := n\<rparr>\<rparr>))"

text \<open>
  Adding a row and flushing it. The insert draws the row's id from the sequence and is
  then checked against the declarations of \<open>messages/models.py\<close>: a \<open>sender\<close> of more
  than 36 characters does not fit \<open>String(36)\<close> (a \<open>DataError\<close>); a column declared
  \<open>nullable=False\<close> rejects a missing value, the primary key and the \<open>unique=True\<close> column
  \<open>sessions.session_id\<close> reject a value that a stored row has (an \<open>IntegrityError\<close>). A
  missing \<open>created_at\<close> takes the column default \<open>datetime.utcnow\<close>, the two flags of a
  message default to false. The new row comes last. The foreign keys are not checked
  here: every insert of the code names a session it has just read or created.
\<close>

definition db_add_message ::
  "pystr \<Rightarrow> pystr \<Rightarrow> MessageRole option \<Rightarrow> pystr \<Rightarrow> datetime option \<Rightarrow> datetime \<Rightarrow>
   AsyncSession \<Rightarrow> (error + Message) \<times> AsyncSession" where
  "db_add_message text_v sender_v role_v session_id_v created_at_v now db =
     (case nextval_messages db of
        (n, db1) \<Rightarrow>
          if length sender_v > 36 then (Inl DataError, db1)
          else if n \<in> set (map msg_id (messages (pending db1))) then (Inl IntegrityError, db1)
          else
            (case role_v of
               None \<Rightarrow> (Inl IntegrityError, db1)
             | Some r \<Rightarrow>
                 let row = \<lparr>msg_id = n, msg_text = text_v, msg_sender = sender_v, msg_role = r,
                            msg_session_id = session_id_v,
                            msg_created_at =
                              (case created_at_v of None \<Rightarrow> Some now | Some t \<Rightarrow> Some t),
                            is_sent_to_rabbitmq = False, is_processed_by_bot = False\<rparr>
                 in (Inr row,
                     db1\<lparr>pending := (pending db1)\<lparr>messages := messages (pending db1) @ [row]\<rparr>\<rparr>)))"

definition db_add_session ::
  "pystr \<Rightarrow> pystr option \<Rightarrow> datetime \<Rightarrow> datetime \<Rightarrow> AsyncSession \<Rightarrow>
   (error + Session) \<times> AsyncSession" where
  "db_add_session session_id_v user_id_v created_at_v last_active_v db =
     (case nextval_sessions db of
        (n, db1) \<Rightarrow>
          (case user_id_v of
             None \<Rightarrow> (Inl IntegrityError, db1)
           | Some u \<Rightarrow>
               if n \<in> set (map sess_id (sessions (pending db1))) then (Inl IntegrityError, db1)
               else if session_id_v \<in> set (map sess_session_id (sessions (pending db1)))
               then (Inl IntegrityError, db1)
               else
                 let row = \<lparr>sess_id = n, sess_session_id = session_id_v, sess_user_id = u,
                            sess_created_at = created_at_v, sess_last_active = last_active_v\<rparr>
                 in (Inr row,
                     db1\<lparr>pending := (pending db1)\<lparr>sessions := sessions (pending db1) @ [row]\<rparr>\<rparr>)))"

definition db_add_lead ::
  "pystr option \<Rightarrow> pystr option \<Rightarrow> pystr \<Rightarrow> AsyncSession \<Rightarrow> (error + Lead) \<times> AsyncSession" where
  "db_add_lead first_name_v last_name_v session_id_v db =
     (case nextval_leads db of
        (n, db1) \<Rightarrow>
          if n \<in> set (map lead_id (leads (pending db1))) then (Inl IntegrityError, db1)
          else
            let row = \<lparr>lead_id = n, first_name = first_name_v, last_name = last_name_v,
                       lead_session_id = session_id_v\<rparr>
            in (Inr row, db1\<lparr>pending := (pending db1)\<lparr>leads := leads (pending db1) @ [row]\<rparr>\<rparr>))"

section \<open>The broker client\<close>

text \<open>
  The broker is outside the program. The model records every call made to the client, in
  order, and lets the broker refuse any of them: a refused call is recorded and raises.
\<close>

datatype DeliveryMode = NOT_PERSISTENT | PERSISTENT

datatype broker_call =
    Connect string
  | Channel
  | SetQos nat
  | DeclareQueue string bool
  | Publish string DeliveryMode string
  | Close

record broker =
  refuses :: "broker_call \<Rightarrow> bool"
  calls :: "broker_call list"

definition call :: "broker_call \<Rightarrow> broker \<Rightarrow> (error + unit) \<times> broker" where
  "call c b =
     (let b' = b\<lparr>calls := calls b @ [c]\<rparr>
      in if refuses b c then (Inl AMQPError, b') else (Inr (), b'))"

text \<open>Sequencing of client calls: the first exception ends the sequence.\<close>

fun and_then ::
  "(error + unit) \<times> broker \<Rightarrow> (broker \<Rightarrow> (error + unit) \<times> broker) \<Rightarrow> (error + unit) \<times> broker" where
  "and_then (Inl e, b) f = (Inl e, b)"
| "and_then (Inr u, b) f = f b"

definition is_publish :: "broker_call \<Rightarrow> bool" where
  "is_publish c = (case c of Publish body mode key \<Rightarrow> True | _ \<Rightarrow> False)"


section \<open>The message relay (messages/router.py)\<close>

definition RABBITMQ_URL :: string where
  "RABBITMQ_URL = ''amqp://localhost/''"

definition QUEUE_NAME :: string where
  "QUEUE_NAME = ''message_queue''"

definition getitem :: "pydict \<Rightarrow> string \<Rightarrow> error + jvalue" where
  "getitem d k = (case map_of d k of None \<Rightarrow> Inl KeyError | Some v \<Rightarrow> Inr v)"

text \<open>The body of \<open>async with connection\<close>: channel, prefetch, queue declaration,
  serialisation and the publish on the default exchange.\<close>

definition with_connection :: "pydict \<Rightarrow> broker \<Rightarrow> (error + unit) \<times> broker" where
  "with_connection message_data b =
     and_then (call Channel b) (\<lambda>b.
     and_then (call (SetQos 1) b) (\<lambda>b.
     and_then (call (DeclareQueue QUEUE_NAME True) b) (\<lambda>b.
       let message_body = json_dumps message_data
       in call (Publish message_body PERSISTENT QUEUE_NAME) b)))"

text \<open>Connecting, running the block, and closing the connection when the block is left,
  normally or by an exception.\<close>

definition publish_to_queue :: "pydict \<Rightarrow> broker \<Rightarrow> (error + unit) \<times> broker" where
  "publish_to_queue message_data b =
     (case call (Connect RABBITMQ_URL) b of
        (Inl e, b1) \<Rightarrow> (Inl e, b1)
      | (Inr u, b1) \<Rightarrow>
          (case with_connection message_data b1 of
             (r, b2) \<Rightarrow> (r, b2\<lparr>calls := calls b2 @ [Close]\<rparr>)))"

text \<open>\<open>message.is_sent_to_rabbitmq = True\<close>, flushed as an update of the row with the
  message's primary key.\<close>

definition set_sent :: "int \<Rightarrow> AsyncSession \<Rightarrow> AsyncSession" where
  "set_sent pk db =
     db\<lparr>pending := (pending db)\<lparr>messages :=
        map (\<lambda>m. if msg_id m = pk then m\<lparr>is_sent_to_rabbitmq := True\<rparr> else m)
            (messages (pending db))\<rparr>\<rparr>"

text \<open>The \<open>try\<close> block of \<open>send_to_rabbitmq\<close>. The query compares the id column with
  \<open>message_data["id"]\<close>; a value that is not an integer equals no id.\<close>

definition send_to_rabbitmq_try ::
  "pydict \<Rightarrow> AsyncSession \<Rightarrow> broker \<Rightarrow> (error + unit) \<times> AsyncSession \<times> broker" where
  "send_to_rabbitmq_try message_data db_session b =
     (case getitem message_data ''id'' of
        Inl e \<Rightarrow> (Inl e, db_session, b)
      | Inr v \<Rightarrow>
          (case first (filter (\<lambda>m. JInt (msg_id m) = v) (messages (pending db_session))) of
             None \<Rightarrow> (Inr (), db_session, b)
           | Some message \<Rightarrow>
               let db1 = commit (set_sent (msg_id message) db_session)
               in (case publish_to_queue message_data b of
                     (r, b') \<Rightarrow> (r, db1, b'))))"

text \<open>\<open>send_to_rabbitmq\<close>: on any exception of the block the session is rolled back and
  the exception is raised again.\<close>

definition send_to_rabbitmq ::
  "pydict \<Rightarrow> AsyncSession \<Rightarrow> broker \<Rightarrow> (error + unit) \<times> AsyncSession \<times> broker" where
  "send_to_rabbitmq message_data db_session b =
     (case send_to_rabbitmq_try message_data db_session b of
        (Inl e, db', b') \<Rightarrow> (Inl e, rollback db', b')
      | (Inr u, db', b') \<Rightarrow> (Inr u, db', b'))"

section \<open>Request schemas (messages/schemas.py)\<close>

record MessageCreate =
  mc_text :: pystr
  mc_sender :: pystr
  mc_role :: MessageRole
  mc_session_id :: "pystr option"

text \<open>The field validator of \<open>text\<close>.\<close>

definition validate_text :: "pystr \<Rightarrow> error + pystr" where
  "validate_text v = (if \<not> truthy (strip v) then Inl ValueError else Inr v)"

text \<open>Building the model from the fields of a request body: a validator that raises makes
  the construction fail with a validation error.\<close>

definition MessageCreate_validate ::
  "pystr \<Rightarrow> pystr \<Rightarrow> MessageRole \<Rightarrow> pystr option \<Rightarrow> error + MessageCreate" where
  "MessageCreate_validate text_v sender_v role_v session_id_v =
     (case validate_text text_v of
        Inl e \<Rightarrow> Inl RequestValidationError
      | Inr t \<Rightarrow> Inr \<lparr>mc_text = t, mc_sender = sender_v, mc_role = role_v,
                       mc_session_id = session_id_v\<rparr>)"

record MessageResponse =
  resp_message :: pystr
  resp_session_id :: pystr

section \<open>Receiving a message (messages/router.py)\<close>

text \<open>The dictionary \<open>message_data_for_rabbitmq\<close> built from the refreshed row.\<close>

definition message_data_for_rabbitmq :: "Message \<Rightarrow> pydict" where
  "message_data_for_rabbitmq new_message =
     [(''session_id'', JStr (msg_session_id new_message)),
      (''id'', JInt (msg_id new_message)),
      (''text'', JStr (msg_text new_message)),
      (''sender'', JStr (msg_sender new_message)),
      (''created_at'', (case msg_created_at new_message of
                           None \<Rightarrow> JNull | Some t \<Rightarrow> JStr (isoformat t)))]"

definition accepted :: "pystr \<Rightarrow> MessageResponse" where
  "accepted sid =
     \<lparr>resp_message = [1057, 1086, 1086, 1073, 1097, 1077, 1085, 1080, 1077, 32,
                       1087, 1088, 1080, 1085, 1103, 1090, 1086],
      resp_session_id = sid\<rparr>"

definition receive_message ::
  "datetime \<Rightarrow> MessageCreate \<Rightarrow> AsyncSession \<Rightarrow> broker \<Rightarrow>
   (error + MessageResponse) \<times> AsyncSession \<times> broker" where
  "receive_message now message_data db b =
     (case mc_session_id message_data of
        None \<Rightarrow> (Inl (HTTPException 400), db, b)
      | Some sid \<Rightarrow>
          if \<not> truthy sid then (Inl (HTTPException 400), db, b)
          else
            (case first (filter (\<lambda>s. sess_session_id s = sid) (sessions (pending db))) of
               None \<Rightarrow> (Inl (HTTPException 404), db, b)
             | Some session \<Rightarrow>
                 (case db_add_message (mc_text message_data) (mc_sender message_data)
                         (Some (mc_role message_data)) sid (Some now) now db of
                    (Inl e, db1) \<Rightarrow> (Inl e, rollback db1, b)
                  | (Inr new_message, db1) \<Rightarrow>
                      let db2 = commit db1
                      in if mc_role message_data \<noteq> BOT
                         then (case send_to_rabbitmq (message_data_for_rabbitmq new_message) db2 b of
                                 (Inl e, db3, b') \<Rightarrow> (Inl e, db3, b')
                               | (Inr u, db3, b') \<Rightarrow> (Inr (accepted sid), db3, b'))
                         else (Inr (accepted sid), db2, b))))"

text \<open>The route \<open>POST /messages/\<close>: the framework builds the \<open>MessageCreate\<close> from the
  request body and answers a body that does not validate with status 422, without calling
  the handler.\<close>

definition post_message ::
  "datetime \<Rightarrow> pystr \<Rightarrow> pystr \<Rightarrow> MessageRole \<Rightarrow> pystr option \<Rightarrow> AsyncSession \<Rightarrow> broker \<Rightarrow>
   (error + MessageResponse) \<times> AsyncSession \<times> broker" where
  "post_message now text_v sender_v role_v session_id_v db b =
     (case MessageCreate_validate text_v sender_v role_v session_id_v of
        Inl e \<Rightarrow> (Inl (HTTPException 422), db, b)
      | Inr message_data \<Rightarrow> receive_message now message_data db b)"

section \<open>Session resolution by user (messages/router.py)\<close>

definition SESSION_LIFETIME :: timedelta where
  "SESSION_LIFETIME = minutes 2"

text \<open>
  \<open>uuid4\<close> stands for the value of \<open>str(uuid.uuid4())\<close> drawn by the call.
  \<open>create_new_session\<close> adds the row, commits and refreshes it. Inside an
  \<open>async with db.begin()\<close> block the commit closes the transaction of the block, and until
  the block is left the session refuses every further command, the refresh among them,
  with an \<open>InvalidRequestError\<close>: the row is stored and the function raises.
  \<open>inside_begin_block\<close> says whether the call stands in such a block; both calls of the
  code do.
\<close>

definition create_new_session ::
  "bool \<Rightarrow> pystr \<Rightarrow> datetime \<Rightarrow> pystr \<Rightarrow> AsyncSession \<Rightarrow> (error + pystr) \<times> AsyncSession" where
  "create_new_session inside_begin_block uuid4 now user_id db =
     (case db_add_session uuid4 (Some user_id) now now db of
        (Inl e, db1) \<Rightarrow> (Inl e, rollback db1)
      | (Inr new_session, db1) \<Rightarrow>
          let db2 = commit db1
          in if inside_begin_block then (Inl InvalidRequestError, db2)
             else (Inr (sess_session_id new_session), db2))"

text \<open>\<open>existing_session.last_active = datetime.utcnow()\<close>, flushed as an update of the
  row with the session's primary key.\<close>

definition set_last_active :: "int \<Rightarrow> datetime \<Rightarrow> AsyncSession \<Rightarrow> AsyncSession" where
  "set_last_active pk now db =
     db\<lparr>pending := (pending db)\<lparr>sessions :=
        map (\<lambda>s. if sess_id s = pk then s\<lparr>sess_last_active := now\<rparr> else s)
            (sessions (pending db))\<rparr>\<rparr>"

text \<open>The whole body of \<open>get_or_create_session\<close> is the block
  \<open>async with db.begin()\<close>.\<close>

definition get_or_create_session ::
  "pystr \<Rightarrow> datetime \<Rightarrow> pystr \<Rightarrow> AsyncSession \<Rightarrow> (error + pystr) \<times> AsyncSession" where
  "get_or_create_session uuid4 now user_id db =
     (case first (filter (\<lambda>s. sess_user_id s = user_id) (sessions (pending db))) of
        Some existing_session \<Rightarrow>
          if now - sess_last_active existing_session > SESSION_LIFETIME
          then create_new_session True uuid4 now user_id db
          else (Inr (sess_session_id existing_session),
                commit (set_last_active (sess_id existing_session) now db))
      | None \<Rightarrow> create_new_session True uuid4 now user_id db)"

section \<open>Message history and the expiry sweep (messages/router.py)\<close>

text \<open>The history of a session, ordered by id; each message is returned as its text and
  its sender.\<close>

definition history_rows :: "pystr \<Rightarrow> AsyncSession \<Rightarrow> Message list" where
  "history_rows session_id db =
     sort_key msg_id (filter (\<lambda>m. msg_session_id m = session_id) (messages (pending db)))"

definition get_message_history :: "pystr \<Rightarrow> AsyncSession \<Rightarrow> error + (pystr \<times> pystr) list" where
  "get_message_history session_id db =
     (let msgs = history_rows session_id db
      in if msgs = [] then Inl (HTTPException 404)
         else Inr (map (\<lambda>msg. (msg_text msg, msg_sender msg)) msgs))"

text \<open>\<open>db.delete(session)\<close> followed by \<open>db.commit()\<close>: the row with the session's primary
  key goes, and with it (\<open>cascade="all, delete-orphan"\<close>, \<open>ondelete="CASCADE"\<close>) the
  messages and leads that refer to its \<open>session_id\<close>.\<close>

definition delete_session :: "Session \<Rightarrow> AsyncSession \<Rightarrow> AsyncSession" where
  "delete_session session db =
     commit (db\<lparr>pending := (pending db)
       \<lparr>sessions := filter (\<lambda>s. sess_id s \<noteq> sess_id session) (sessions (pending db)),
        leads := filter (\<lambda>l. lead_session_id l \<noteq> sess_session_id session) (leads (pending db)),
        messages := filter (\<lambda>m. msg_session_id m \<noteq> sess_session_id session)
                      (messages (pending db))\<rparr>\<rparr>)"

definition cleanup_expired_sessions :: "datetime \<Rightarrow> AsyncSession \<Rightarrow> AsyncSession" where
  "cleanup_expired_sessions now db =
     (let cutoff_time = now - SESSION_LIFETIME;
          expired_sessions = filter (\<lambda>s. sess_last_active s < cutoff_time) (sessions (pending db))
      in fold delete_session expired_sessions db)"

section \<open>The flow keyed by session_id (get_message)\<close>

subsection \<open>get_message/schemas.py\<close>

record get_message_MessageCreate =
  gm_text :: pystr
  gm_sender :: pystr
  gm_session_id :: pystr

text \<open>This schema declares its three fields and no validator: every triple of strings
  builds a model.\<close>

definition get_message_MessageCreate_validate ::
  "pystr \<Rightarrow> pystr \<Rightarrow> pystr \<Rightarrow> error + get_message_MessageCreate" where
  "get_message_MessageCreate_validate text_v sender_v session_id_v =
     Inr \<lparr>gm_text = text_v, gm_sender = sender_v, gm_session_id = session_id_v\<rparr>"

subsection \<open>get_message/crud.py\<close>

definition get_session :: "AsyncSession \<Rightarrow> pystr \<Rightarrow> error + Session option" where
  "get_session db session_id =
     scalar_one_or_none (filter (\<lambda>s. sess_session_id s = session_id) (sessions (pending db)))"

definition update_last_active :: "datetime \<Rightarrow> AsyncSession \<Rightarrow> pystr \<Rightarrow> AsyncSession" where
  "update_last_active now db session_id =
     commit (db\<lparr>pending := (pending db)\<lparr>sessions :=
        map (\<lambda>s. if sess_session_id s = session_id then s\<lparr>sess_last_active := now\<rparr> else s)
            (sessions (pending db))\<rparr>\<rparr>)"

text \<open>The insert names \<open>session_id\<close>, \<open>created_at\<close> and \<open>last_active\<close> and no
  \<open>user_id\<close>.\<close>

definition create_session ::
  "pystr \<Rightarrow> datetime \<Rightarrow> AsyncSession \<Rightarrow> (error + pystr) \<times> AsyncSession" where
  "create_session uuid4 now db =
     (case db_add_session uuid4 None now now db of
        (Inl e, db1) \<Rightarrow> (Inl e, rollback db1)
      | (Inr row, db1) \<Rightarrow> (Inr uuid4, commit db1))"

definition get_lead_by_session :: "AsyncSession \<Rightarrow> pystr \<Rightarrow> Lead option" where
  "get_lead_by_session db session_id =
     first (filter (\<lambda>l. lead_session_id l = session_id) (leads (pending db)))"

definition placeholder_first_name :: pystr where
  "placeholder_first_name = [1053, 1086, 1074, 1099, 1081]"

definition placeholder_last_name :: pystr where
  "placeholder_last_name = [1051, 1080, 1076]"

definition create_lead :: "AsyncSession \<Rightarrow> pystr \<Rightarrow> (error + Lead) \<times> AsyncSession" where
  "create_lead db session_id =
     (case db_add_lead (Some placeholder_first_name) (Some placeholder_last_name) session_id db of
        (Inl e, db1) \<Rightarrow> (Inl e, rollback db1)
      | (Inr new_lead, db1) \<Rightarrow> (Inr new_lead, commit db1))"

definition get_messages_for_user :: "AsyncSession \<Rightarrow> pystr \<Rightarrow> Message list" where
  "get_messages_for_user db session_id =
     filter (\<lambda>m. msg_session_id m = session_id) (messages (pending db))"

record created_message =
  cm_id :: int
  cm_text :: pystr
  cm_sender :: pystr
  cm_session_id :: pystr
  cm_lead :: Lead

text \<open>\<open>create_message\<close> builds its \<open>Message\<close> from text, sender and session_id only: the
  row has no role and no \<open>created_at\<close>.\<close>

definition create_message ::
  "pystr \<Rightarrow> datetime \<Rightarrow> AsyncSession \<Rightarrow> get_message_MessageCreate \<Rightarrow>
   (error + created_message) \<times> AsyncSession" where
  "create_message uuid4 now db message =
     (case get_session db (gm_session_id message) of
        Inl e \<Rightarrow> (Inl e, db)
      | Inr session \<Rightarrow>
          (case (case session of
                   None \<Rightarrow> create_session uuid4 now db
                 | Some s \<Rightarrow> (Inr (gm_session_id message), db)) of
             (Inl e, db1) \<Rightarrow> (Inl e, db1)
           | (Inr session_id, db1) \<Rightarrow>
               let db2 = update_last_active now db1 session_id
               in (case (case get_lead_by_session db2 session_id of
                           None \<Rightarrow> create_lead db2 session_id
                         | Some l \<Rightarrow> (Inr l, db2)) of
                     (Inl e, db3) \<Rightarrow> (Inl e, db3)
                   | (Inr lead, db3) \<Rightarrow>
                       (case db_add_message (gm_text message) (gm_sender message) None
                               session_id None now db3 of
                          (Inl e, db4) \<Rightarrow> (Inl e, rollback db4)
                        | (Inr db_message, db4) \<Rightarrow>
                            (Inr \<lparr>cm_id = msg_id db_message, cm_text = msg_text db_message,
                                  cm_sender = msg_sender db_message,
                                  cm_session_id = msg_session_id db_message,
                                  cm_lead = lead\<rparr>,
                             commit db4)))))"

subsection \<open>get_message/router.py\<close>

definition SESSION_TIMEOUT :: timedelta where
  "SESSION_TIMEOUT = hours 1"

definition get_message_get_or_create_session ::
  "pystr \<Rightarrow> datetime \<Rightarrow> pystr \<Rightarrow> AsyncSession \<Rightarrow> (error + pystr) \<times> AsyncSession" where
  "get_message_get_or_create_session uuid4 now session_id db =
     (case get_session db session_id of
        Inl e \<Rightarrow> (Inl e, db)
      | Inr session \<Rightarrow>
          (case session of
             Some s \<Rightarrow>
               if now - sess_last_active s < SESSION_TIMEOUT
               then (Inr session_id, update_last_active now db session_id)
               else create_session uuid4 now db
           | None \<Rightarrow> create_session uuid4 now db))"

section \<open>Notions used to state the properties\<close>

text \<open>The row that \<open>receive_message\<close> stores for a request: \<open>new_message\<close> as it is
  after \<open>db.refresh\<close>, with the id drawn from the sequence.\<close>

definition new_message :: "datetime \<Rightarrow> MessageCreate \<Rightarrow> pystr \<Rightarrow> database \<Rightarrow> Message" where
  "new_message now md sid d =
     \<lparr>msg_id = messages_id_seq d + 1, msg_text = mc_text md,
      msg_sender = mc_sender md, msg_role = mc_role md, msg_session_id = sid,
      msg_created_at = Some now, is_sent_to_rabbitmq = False, is_processed_by_bot = False\<rparr>"


text \<open>The row that \<open>create_new_session\<close> stores for a user.\<close>

definition new_session :: "pystr \<Rightarrow> pystr \<Rightarrow> datetime \<Rightarrow> database \<Rightarrow> Session" where
  "new_session uuid4 user_id now d =
     \<lparr>sess_id = sessions_id_seq d + 1, sess_session_id = uuid4,
      sess_user_id = user_id, sess_created_at = now, sess_last_active = now\<rparr>"

section \<open>Example data\<close>

definition t0 :: datetime where
  "t0 = 63839664000000000"

definition session_s1 :: Session where
  "session_s1 = \<lparr>sess_id = 1, sess_session_id = py ''s1'', sess_user_id = py ''u1'',
                  sess_created_at = t0, sess_last_active = t0\<rparr>"

definition session_s2 :: Session where
  "session_s2 = \<lparr>sess_id = 2, sess_session_id = py ''s2'', sess_user_id = py ''u2'',
                  sess_created_at = t0 + minutes 10, sess_last_active = t0 + minutes 10\<rparr>"

definition message_hi :: Message where
  "message_hi = \<lparr>msg_id = 1, msg_text = py ''hi'', msg_sender = py ''u1'', msg_role = LEAD,
                  msg_session_id = py ''s1'', msg_created_at = Some t0,
                  is_sent_to_rabbitmq = False, is_processed_by_bot = False\<rparr>"

definition message_again :: Message where
  "message_again = \<lparr>msg_id = 2, msg_text = py ''again'', msg_sender = py ''u1'',
                     msg_role = LEAD, msg_session_id = py ''s1'',
                     msg_created_at = Some (t0 + minutes 1),
                     is_sent_to_rabbitmq = False, is_processed_by_bot = False\<rparr>"

definition message_other :: Message where
  "message_other = \<lparr>msg_id = 3, msg_text = py ''hello'', msg_sender = py ''u2'',
                     msg_role = LEAD, msg_session_id = py ''s2'',
                     msg_created_at = Some (t0 + minutes 10),
                     is_sent_to_rabbitmq = False, is_processed_by_bot = False\<rparr>"

definition lead_s1 :: Lead where
  "lead_s1 = \<lparr>lead_id = 1, first_name = Some (py ''Ann''), last_name = None,
               lead_session_id = py ''s1''\<rparr>"

definition one_session :: database where
  "one_session = \<lparr>sessions = [session_s1], leads = [], messages = [],
                   sessions_id_seq = 1, leads_id_seq = 0, messages_id_seq = 0\<rparr>"

definition one_message :: database where
  "one_message = \<lparr>sessions = [session_s1], leads = [], messages = [message_hi],
                   sessions_id_seq = 1, leads_id_seq = 0, messages_id_seq = 1\<rparr>"

definition two_sessions :: database where
  "two_sessions = \<lparr>sessions = [session_s1, session_s2], leads = [lead_s1],
                    messages = [message_hi, message_again, message_other],
                    sessions_id_seq = 2, leads_id_seq = 1, messages_id_seq = 3\<rparr>"

definition healthy :: broker where
  "healthy = \<lparr>refuses = (\<lambda>c. False), calls = []\<rparr>"

definition publish_refused :: broker where
  "publish_refused = \<lparr>refuses = is_publish, calls = []\<rparr>"


definition lead_request :: MessageCreate where
  "lead_request = \<lparr>mc_text = py ''hi'', mc_sender = py ''u1'', mc_role = LEAD,
                    mc_session_id = Some (py ''s1'')\<rparr>"

definition out_of_order :: database where
  "out_of_order = \<lparr>sessions = [session_s1], leads = [], messages = [message_again, message_hi],
                    sessions_id_seq = 1, leads_id_seq = 0, messages_id_seq = 2\<rparr>"

definition blank_request :: get_message_MessageCreate where
  "blank_request = \<lparr>gm_text = [], gm_sender = py ''u1'', gm_session_id = py ''s1''\<rparr>"

definition session_s3 :: Session where
  "session_s3 = \<lparr>sess_id = 3, sess_session_id = py ''s3'', sess_user_id = py ''u1'',
                  sess_created_at = t0 + minutes 10, sess_last_active = t0 + minutes 10\<rparr>"

definition expired_then_active :: database where
  "expired_then_active = \<lparr>sessions = [session_s1, session_s3], leads = [], messages = [],
                           sessions_id_seq = 3, leads_id_seq = 0, messages_id_seq = 0\<rparr>"

section \<open>Auxiliary facts\<close>

lemma refuses_calls_update [simp]: "refuses (b\<lparr>calls := cs\<rparr>) = refuses b"
  by simp


lemma first_filter_Some:
  "x \<in> set xs \<Longrightarrow> P x \<Longrightarrow> \<exists>y. first (filter P xs) = Some y"
  by (cases "filter P xs") (auto simp: first_def filter_empty_conv)

lemma send_to_rabbitmq_new_message:
  assumes "messages D = ms @ [row]" and "msg_id row \<notin> msg_id ` set ms"
  shows "send_to_rabbitmq (message_data_for_rabbitmq row) (open_session D) b =
         (fst (publish_to_queue (message_data_for_rabbitmq row) b),
          open_session (D\<lparr>messages := ms @ [row\<lparr>is_sent_to_rabbitmq := True\<rparr>]\<rparr>),
          snd (publish_to_queue (message_data_for_rabbitmq row) b))"
proof -
  have g: "getitem (message_data_for_rabbitmq row) ''id'' = Inr (JInt (msg_id row))"
    by (simp add: getitem_def message_data_for_rabbitmq_def)
  have other: "\<And>m. m \<in> set ms \<Longrightarrow> msg_id m \<noteq> msg_id row"
    using assms(2) by (metis imageI)
  have f: "filter (\<lambda>m. msg_id m = msg_id row) ms = []"
    using other by (simp add: filter_empty_conv)
  have m: "map (\<lambda>m. if msg_id m = msg_id row then m\<lparr>is_sent_to_rabbitmq := True\<rparr> else m) ms = ms"
    using other by (simp add: map_idI)
  show ?thesis
    by (cases "publish_to_queue (message_data_for_rabbitmq row) b")
       (simp add: send_to_rabbitmq_def send_to_rabbitmq_try_def g f m first_def set_sent_def
          commit_def rollback_def open_session_def assms(1) split: sum.splits)
qed

lemma receive_message_accepted:
  assumes sid: "mc_session_id md = Some sid" "sid \<noteq> []"
      and known: "sid \<in> sess_session_id ` set (sessions d)"
      and fits: "length (mc_sender md) \<le> 36"
      and fresh: "messages_id_seq d + 1 \<notin> msg_id ` set (messages d)"
  shows "receive_message now md (open_session d) b =
     (if mc_role md \<noteq> BOT
      then ((case fst (publish_to_queue (message_data_for_rabbitmq (new_message now md sid d)) b) of
               Inl e \<Rightarrow> Inl e | Inr u \<Rightarrow> Inr (accepted sid)),
            open_session (d\<lparr>messages := messages d @
                              [(new_message now md sid d)\<lparr>is_sent_to_rabbitmq := True\<rparr>],
                            messages_id_seq := messages_id_seq d + 1\<rparr>),
            snd (publish_to_queue (message_data_for_rabbitmq (new_message now md sid d)) b))
      else (Inr (accepted sid),
            open_session (d\<lparr>messages := messages d @ [new_message now md sid d],
                            messages_id_seq := messages_id_seq d + 1\<rparr>), b))"
proof -
  let ?row = "new_message now md sid d"
  let ?D = "d\<lparr>messages := messages d @ [?row], messages_id_seq := messages_id_seq d + 1\<rparr>"
  obtain s where s: "first (filter (\<lambda>s. sess_session_id s = sid) (sessions d)) = Some s"
    using known first_filter_Some [of _ "sessions d" "\<lambda>s. sess_session_id s = sid"] by auto
  have a: "db_add_message (mc_text md) (mc_sender md) (Some (mc_role md)) sid (Some now) now
             (open_session d) =
           (Inr ?row, \<lparr>stored = d\<lparr>messages_id_seq := messages_id_seq d + 1\<rparr>, pending = ?D\<rparr>)"
    using fits fresh
    by (simp add: db_add_message_def nextval_messages_def new_message_def open_session_def Let_def)
  have c: "commit \<lparr>stored = d\<lparr>messages_id_seq := messages_id_seq d + 1\<rparr>, pending = ?D\<rparr> =
           open_session ?D"
    by (simp add: commit_def open_session_def)
  have r: "msg_id ?row \<notin> msg_id ` set (messages d)"
    using fresh by (simp add: new_message_def)
  have m: "messages ?D = messages d @ [?row]" by simp
  have p: "pending (open_session d) = d" by (simp add: open_session_def)
  have relay: "send_to_rabbitmq (message_data_for_rabbitmq ?row) (open_session ?D) b =
         (fst (publish_to_queue (message_data_for_rabbitmq ?row) b),
          open_session (d\<lparr>messages := messages d @ [?row\<lparr>is_sent_to_rabbitmq := True\<rparr>],
                          messages_id_seq := messages_id_seq d + 1\<rparr>),
          snd (publish_to_queue (message_data_for_rabbitmq ?row) b))"
    using send_to_rabbitmq_new_message [OF m r, of b] by (cases d) simp
  have "receive_message now md (open_session d) b =
        (if mc_role md \<noteq> BOT
         then (case send_to_rabbitmq (message_data_for_rabbitmq ?row) (open_session ?D) b of
                 (Inl e, db3, b') \<Rightarrow> (Inl e, db3, b')
               | (Inr u, db3, b') \<Rightarrow> (Inr (accepted sid), db3, b'))
         else (Inr (accepted sid), open_session ?D, b))"
    by (simp only: receive_message_def sid p s a c truthy_def option.case prod.case sum.case
          if_False simp_thms Let_def)
  then show ?thesis
    by (simp only: relay) (simp split: sum.splits)
qed


lemma delete_session_open:
  "delete_session e (open_session d) =
     open_session (d\<lparr>sessions := filter (\<lambda>s. sess_id s \<noteq> sess_id e) (sessions d),
                     leads := filter (\<lambda>l. lead_session_id l \<noteq> sess_session_id e) (leads d),
                     messages := filter (\<lambda>m. msg_session_id m \<noteq> sess_session_id e) (messages d)\<rparr>)"
  by (simp add: delete_session_def open_session_def commit_def)

lemma fold_delete_session:
  "fold delete_session es (open_session d) =
     open_session (d\<lparr>sessions := filter (\<lambda>s. sess_id s \<notin> sess_id ` set es) (sessions d),
                     leads := filter (\<lambda>l. lead_session_id l \<notin> sess_session_id ` set es) (leads d),
                     messages := filter (\<lambda>m. msg_session_id m \<notin> sess_session_id ` set es) (messages d)\<rparr>)"
proof (induction es arbitrary: d)
  case Nil
  show ?case by simp
next
  case (Cons e es)
  have c: "(\<lambda>x. f x \<notin> g ` set es \<and> f x \<noteq> g e) = (\<lambda>x. f x \<noteq> g e \<and> f x \<notin> g ` set es)"
    for f :: "'a \<Rightarrow> 'b" and g :: "Session \<Rightarrow> 'b"
    by auto
  show ?case
    by (simp add: delete_session_open Cons.IH c)
qed

lemma filter_kept:
  "a \<notin> A \<Longrightarrow> filter (\<lambda>x. f x = a) (filter (\<lambda>x. f x \<notin> A) xs) = filter (\<lambda>x. f x = a) xs"
  by (induction xs) auto

lemma scalar_one_distinct:
  assumes "distinct (map f xs)"
  shows "filter (\<lambda>x. f x = a) xs = [] \<or> (\<exists>x \<in> set xs. f x = a \<and> filter (\<lambda>x. f x = a) xs = [x])"
  using assms
proof (induction xs)
  case Nil
  then show ?case by simp
next
  case (Cons y ys)
  show ?case
  proof (cases "f y = a")
    case True
    have "f y \<notin> f ` set ys" using Cons.prems by simp
    then have "\<forall>x \<in> set ys. f x \<noteq> a" using True by blast
    then have "filter (\<lambda>x. f x = a) ys = []"
      by (simp add: filter_empty_conv)
    then show ?thesis using True by simp
  next
    case False
    then show ?thesis using Cons by auto
  qed
qed

lemma history_rows_sorted:
  "sorted (map msg_id (history_rows session_id db)) \<and>
   set (history_rows session_id db) =
     {m \<in> set (messages (pending db)). msg_session_id m = session_id} \<and>
   length (history_rows session_id db) =
     length (filter (\<lambda>m. msg_session_id m = session_id) (messages (pending db)))"
  by (simp add: history_rows_def)

lemma get_messages_for_user_stored_order:
  "sorted (map msg_id (messages (pending db))) \<Longrightarrow>
   sorted (map msg_id (get_messages_for_user db session_id))"
  by (simp add: get_messages_for_user_def sorted_filter)

lemma dropWhile_all: "list_all P v \<Longrightarrow> dropWhile P v = []"
  by (induction v) auto

lemma strip_blank: "list_all isspace v \<Longrightarrow> strip v = []"
  by (simp add: strip_def dropWhile_all)

lemma post_message_rejects_blank_text:
  "list_all isspace text_v \<Longrightarrow>
   post_message now text_v sender_v role_v session_id_v db b = (Inl (HTTPException 422), db, b)"
  by (simp add: post_message_def MessageCreate_validate_def validate_text_def truthy_def strip_blank)

text \<open>Whenever the relay finds the message and the broker block raises, the exception is
  raised again, the flag of the message is stored as true and every text is as before.\<close>

lemma relay_failure_flag_committed:
  assumes "getitem message_data ''id'' = Inr (JInt n)"
      and "m \<in> set (messages (pending db_session))" and "msg_id m = n"
      and "fst (publish_to_queue message_data b) = Inl e"
  shows "fst (send_to_rabbitmq message_data db_session b) = Inl e \<and>
         list_all (\<lambda>m'. msg_id m' = n \<longrightarrow> is_sent_to_rabbitmq m')
           (messages (stored (fst (snd (send_to_rabbitmq message_data db_session b))))) \<and>
         map msg_text (messages (stored (fst (snd (send_to_rabbitmq message_data db_session b))))) =
           map msg_text (messages (pending db_session))"
proof -
  obtain message where f: "first (filter (\<lambda>m. JInt (msg_id m) = JInt n) (messages (pending db_session))) = Some message"
    using first_filter_Some [of m "messages (pending db_session)" "\<lambda>m. JInt (msg_id m) = JInt n"] assms(2,3)
    by auto
  then obtain rest where
    "filter (\<lambda>m. JInt (msg_id m) = JInt n) (messages (pending db_session)) = message # rest"
    by (auto simp: first_def split: list.splits)
  then have "message \<in> set (filter (\<lambda>m. JInt (msg_id m) = JInt n) (messages (pending db_session)))"
    by (metis list.set_intros(1))
  then have i: "msg_id message = n" by simp
  obtain r b' where p: "publish_to_queue message_data b = (r, b')" by (cases "publish_to_queue message_data b")
  then have r: "r = Inl e" using assms(4) by simp
  show ?thesis
    using assms(1) f i p r
    by (auto simp: send_to_rabbitmq_def send_to_rabbitmq_try_def set_sent_def commit_def
          rollback_def list_all_iff o_def)
qed

section \<open>The relay\<close>

text \<open>
  C9. When the relay's re-fetch by id finds no row, \<open>send_to_rabbitmq\<close> returns normally
  (no exception reaches the caller), the session and with it the store are exactly as they
  were, so no flag is set, and the broker client has not been called, so nothing is
  published.
\<close>

theorem relay_missing_message_returns:
  assumes "getitem message_data ''id'' = Inr (JInt n)"
      and "\<forall>m \<in> set (messages (pending db_session)). msg_id m \<noteq> n"
  shows "send_to_rabbitmq message_data db_session b = (Inr (), db_session, b)"
proof -
  have "filter (\<lambda>m. JInt (msg_id m) = JInt n) (messages (pending db_session)) = []"
    using assms(2) by (auto simp: filter_empty_conv)
  then show ?thesis
    using assms(1) by (simp add: send_to_rabbitmq_def send_to_rabbitmq_try_def first_def)
qed

theorem relay_missing_message_returns_witness:
  "getitem [(''id'', JInt 7)] ''id'' = Inr (JInt 7) \<and>
   list_all (\<lambda>m. msg_id m \<noteq> 7) (messages (pending (open_session one_message))) \<and>
   send_to_rabbitmq [(''id'', JInt 7)] (open_session one_message) healthy =
     (Inr (), open_session one_message, healthy)"
proof -
  have h1: "getitem [(''id'', JInt 7)] ''id'' = Inr (JInt 7)"
    by (simp add: getitem_def)
  have h2: "\<forall>m \<in> set (messages (pending (open_session one_message))). msg_id m \<noteq> 7"
    by (simp add: open_session_def one_message_def message_hi_def)
  show ?thesis
    using h1 h2 relay_missing_message_returns [OF h1 h2, of healthy]
    by (simp add: list_all_iff)
qed

text \<open>
  C1 at a concrete input. The store holds one message whose flag is false and the broker
  refuses the publish. The relay raises the broker's exception again and the message row
  keeps its text, but the stored flag is true after the call: the flag was committed
  before the connection was opened, so the rollback in the exception handler has nothing
  left to undo.
\<close>

theorem relay_failure_leaves_flag_set:
  "map is_sent_to_rabbitmq (messages one_message) = [False] \<and>
   (case send_to_rabbitmq (message_data_for_rabbitmq message_hi)
           (open_session one_message) publish_refused of
      (r, db', b') \<Rightarrow>
        r = Inl AMQPError \<and>
        map is_sent_to_rabbitmq (messages (stored db')) = [True] \<and>
        map msg_text (messages (stored db')) = [py ''hi''] \<and>
        map msg_id (messages (stored db')) = [1])"
  by (simp add: one_message_def message_hi_def send_to_rabbitmq_def send_to_rabbitmq_try_def
        message_data_for_rabbitmq_def getitem_def first_def open_session_def set_sent_def
        commit_def rollback_def publish_to_queue_def with_connection_def call_def
        publish_refused_def is_publish_def Let_def)

section \<open>Receiving a message\<close>

text \<open>
  C10. A request whose \<open>session_id\<close> names no session row fails and changes nothing:
  the session object, the store behind it and the broker are returned as they were, so no
  message row and no session row is added. The failure is \<open>HTTPException(404)\<close>; a request
  without a \<open>session_id\<close> (\<open>None\<close> or the empty string, both falsy) is refused with the
  client error \<open>HTTPException(400)\<close>.
\<close>

theorem receive_message_unknown_session:
  assumes "\<forall>s \<in> set (sessions (pending db)). Some (sess_session_id s) \<noteq> mc_session_id message_data"
  shows "receive_message now message_data db b =
           (Inl (HTTPException (if mc_session_id message_data = None \<or>
                                   mc_session_id message_data = Some [] then 400 else 404)),
            db, b)"
proof (cases "mc_session_id message_data")
  case None
  then show ?thesis by (simp add: receive_message_def)
next
  case (Some sid)
  have "filter (\<lambda>s. sess_session_id s = sid) (sessions (pending db)) = []"
    using assms Some by (auto simp: filter_empty_conv)
  then show ?thesis
    using Some by (simp add: receive_message_def truthy_def first_def)
qed

theorem receive_message_unknown_session_witness:
  "list_all (\<lambda>s. Some (sess_session_id s) \<noteq> mc_session_id (lead_request\<lparr>mc_session_id := Some (py ''s9'')\<rparr>))
     (sessions (pending (open_session one_message))) \<and>
   receive_message t0 (lead_request\<lparr>mc_session_id := Some (py ''s9'')\<rparr>)
     (open_session one_message) healthy =
     (Inl (HTTPException 404), open_session one_message, healthy) \<and>
   list_all (\<lambda>s. Some (sess_session_id s) \<noteq> mc_session_id (lead_request\<lparr>mc_session_id := None\<rparr>))
     (sessions (pending (open_session one_message))) \<and>
   receive_message t0 (lead_request\<lparr>mc_session_id := None\<rparr>)
     (open_session one_message) healthy =
     (Inl (HTTPException 400), open_session one_message, healthy)"
proof -
  have h1: "\<forall>s \<in> set (sessions (pending (open_session one_message))).
              Some (sess_session_id s) \<noteq> mc_session_id (lead_request\<lparr>mc_session_id := Some (py ''s9'')\<rparr>)"
    by (simp add: open_session_def one_message_def session_s1_def py_def)
  have h2: "\<forall>s \<in> set (sessions (pending (open_session one_message))).
              Some (sess_session_id s) \<noteq> mc_session_id (lead_request\<lparr>mc_session_id := None\<rparr>)"
    by simp
  have n: "py ''s9'' \<noteq> []" by (simp add: py_def)
  show ?thesis
    using h1 h2 n
      receive_message_unknown_session [OF h1, of t0 healthy]
      receive_message_unknown_session [OF h2, of t0 healthy]
    by (simp add: list_all_iff)
qed

section \<open>Storing and relaying a message\<close>




lemma json_dumps_escapes:
  "json_dumps [(''text'', JStr [97, 34, 98, 92, 99, 10, 127, 1053, 128512])] =
   ''{'' @ [CHR 0x22] @ ''text'' @ [CHR 0x22] @ '': '' @ [CHR 0x22] @ ''a'' @ [CHR 0x5C] @ [CHR 0x22] @ ''b'' @ [CHR 0x5C] @ [CHR 0x5C] @ ''c'' @ [CHR 0x5C] @ ''n'' @ [CHR 0x5C] @ ''u007f'' @ [CHR 0x5C] @ ''u041d'' @ [CHR 0x5C] @ ''ud83d'' @ [CHR 0x5C] @ ''ude00'' @ [CHR 0x22] @ ''}''"
  by (simp add: json_dumps_def dumps_item_def encode_basestring_ascii_def escape_char_def
        hex4_def hexdigit_def py_def char_of_def bit_Suc_0_iff Let_def)




section \<open>The expiry sweep\<close>

text \<open>
  C5. After \<open>cleanup_expired_sessions\<close>, a session whose \<open>last_active\<close> is older than the
  cutoff \<open>now - SESSION_LIFETIME\<close> is no longer stored, and no stored message or lead
  refers to its \<open>session_id\<close>; a session whose \<open>last_active\<close> is not older than the
  cutoff is still stored, the same row, with the same messages and leads in the same order.
  The primary key and the unique \<open>session_id\<close> of the sessions table are the two
  premises.
\<close>

theorem cleanup_expired_sessions_sweeps:
  assumes "distinct (map sess_id (sessions d))"
      and "distinct (map sess_session_id (sessions d))"
      and "s \<in> set (sessions d)"
  shows "(sess_last_active s < now - SESSION_LIFETIME \<longrightarrow>
            s \<notin> set (sessions (stored (cleanup_expired_sessions now (open_session d)))) \<and>
            (\<forall>m \<in> set (messages (stored (cleanup_expired_sessions now (open_session d)))).
               msg_session_id m \<noteq> sess_session_id s) \<and>
            (\<forall>l \<in> set (leads (stored (cleanup_expired_sessions now (open_session d)))).
               lead_session_id l \<noteq> sess_session_id s)) \<and>
         (\<not> sess_last_active s < now - SESSION_LIFETIME \<longrightarrow>
            s \<in> set (sessions (stored (cleanup_expired_sessions now (open_session d)))) \<and>
            filter (\<lambda>m. msg_session_id m = sess_session_id s)
              (messages (stored (cleanup_expired_sessions now (open_session d)))) =
            filter (\<lambda>m. msg_session_id m = sess_session_id s) (messages d) \<and>
            filter (\<lambda>l. lead_session_id l = sess_session_id s)
              (leads (stored (cleanup_expired_sessions now (open_session d)))) =
            filter (\<lambda>l. lead_session_id l = sess_session_id s) (leads d))"
proof -
  let ?es = "filter (\<lambda>s. sess_last_active s < now - SESSION_LIFETIME) (sessions d)"
  have res: "stored (cleanup_expired_sessions now (open_session d)) =
     d\<lparr>sessions := filter (\<lambda>s. sess_id s \<notin> sess_id ` set ?es) (sessions d),
       leads := filter (\<lambda>l. lead_session_id l \<notin> sess_session_id ` set ?es) (leads d),
       messages := filter (\<lambda>m. msg_session_id m \<notin> sess_session_id ` set ?es) (messages d)\<rparr>"
  proof -
    have "pending (open_session d) = d" by (simp add: open_session_def)
    then have "cleanup_expired_sessions now (open_session d) = fold delete_session ?es (open_session d)"
      by (simp add: cleanup_expired_sessions_def)
    then have "cleanup_expired_sessions now (open_session d) =
       open_session (d\<lparr>sessions := filter (\<lambda>s. sess_id s \<notin> sess_id ` set ?es) (sessions d),
                       leads := filter (\<lambda>l. lead_session_id l \<notin> sess_session_id ` set ?es) (leads d),
                       messages := filter (\<lambda>m. msg_session_id m \<notin> sess_session_id ` set ?es) (messages d)\<rparr>)"
      by (simp only: fold_delete_session)
    then show ?thesis by (simp only: open_session_def AsyncSession.simps)
  qed
  have expired: "sess_last_active s < now - SESSION_LIFETIME \<Longrightarrow> s \<in> set ?es"
    using assms(3) by simp
  have kept_id: "sess_id s \<notin> sess_id ` set ?es"
    if "\<not> sess_last_active s < now - SESSION_LIFETIME"
  proof
    assume "sess_id s \<in> sess_id ` set ?es"
    then obtain e where e: "e \<in> set (sessions d)" "sess_last_active e < now - SESSION_LIFETIME"
      "sess_id e = sess_id s" by auto
    then have "e = s" using assms(1,3) by (meson distinct_map inj_onD)
    then show False using e(2) that by simp
  qed
  have kept_sid: "sess_session_id s \<notin> sess_session_id ` set ?es"
    if "\<not> sess_last_active s < now - SESSION_LIFETIME"
  proof
    assume "sess_session_id s \<in> sess_session_id ` set ?es"
    then obtain e where e: "e \<in> set (sessions d)" "sess_last_active e < now - SESSION_LIFETIME"
      "sess_session_id e = sess_session_id s" by auto
    then have "e = s" using assms(2,3) by (meson distinct_map inj_onD)
    then show False using e(2) that by simp
  qed
  have gone: "sess_last_active s < now - SESSION_LIFETIME \<Longrightarrow>
      s \<notin> set (sessions (stored (cleanup_expired_sessions now (open_session d)))) \<and>
      (\<forall>m \<in> set (messages (stored (cleanup_expired_sessions now (open_session d)))).
         msg_session_id m \<noteq> sess_session_id s) \<and>
      (\<forall>l \<in> set (leads (stored (cleanup_expired_sessions now (open_session d)))).
         lead_session_id l \<noteq> sess_session_id s)"
    using expired unfolding res by force
  have stay: "\<not> sess_last_active s < now - SESSION_LIFETIME \<Longrightarrow>
      s \<in> set (sessions (stored (cleanup_expired_sessions now (open_session d)))) \<and>
      filter (\<lambda>m. msg_session_id m = sess_session_id s)
        (messages (stored (cleanup_expired_sessions now (open_session d)))) =
      filter (\<lambda>m. msg_session_id m = sess_session_id s) (messages d) \<and>
      filter (\<lambda>l. lead_session_id l = sess_session_id s)
        (leads (stored (cleanup_expired_sessions now (open_session d)))) =
      filter (\<lambda>l. lead_session_id l = sess_session_id s) (leads d)"
  proof -
    assume k: "\<not> sess_last_active s < now - SESSION_LIFETIME"
    have m: "filter (\<lambda>m. msg_session_id m = sess_session_id s)
               (filter (\<lambda>m. msg_session_id m \<notin> sess_session_id ` set ?es) (messages d)) =
             filter (\<lambda>m. msg_session_id m = sess_session_id s) (messages d)"
      using kept_sid [OF k] by (rule filter_kept)
    have l: "filter (\<lambda>l. lead_session_id l = sess_session_id s)
               (filter (\<lambda>l. lead_session_id l \<notin> sess_session_id ` set ?es) (leads d)) =
             filter (\<lambda>l. lead_session_id l = sess_session_id s) (leads d)"
      using kept_sid [OF k] by (rule filter_kept)
    show ?thesis
      unfolding res using kept_id [OF k] assms(3) m l by simp
  qed
  show ?thesis using gone stay by blast
qed

theorem cleanup_expired_sessions_sweeps_witness:
  "distinct (map sess_id (sessions two_sessions)) \<and>
   distinct (map sess_session_id (sessions two_sessions)) \<and>
   session_s1 \<in> set (sessions two_sessions) \<and>
   session_s2 \<in> set (sessions two_sessions) \<and>
   sess_last_active session_s1 < t0 + minutes 11 - SESSION_LIFETIME \<and>
   \<not> sess_last_active session_s2 < t0 + minutes 11 - SESSION_LIFETIME \<and>
   session_s1 \<notin> set (sessions (stored (cleanup_expired_sessions (t0 + minutes 11) (open_session two_sessions)))) \<and>
   list_all (\<lambda>m. msg_session_id m \<noteq> py ''s1'')
     (messages (stored (cleanup_expired_sessions (t0 + minutes 11) (open_session two_sessions)))) \<and>
   list_all (\<lambda>l. lead_session_id l \<noteq> py ''s1'')
     (leads (stored (cleanup_expired_sessions (t0 + minutes 11) (open_session two_sessions)))) \<and>
   session_s2 \<in> set (sessions (stored (cleanup_expired_sessions (t0 + minutes 11) (open_session two_sessions)))) \<and>
   filter (\<lambda>m. msg_session_id m = py ''s2'')
     (messages (stored (cleanup_expired_sessions (t0 + minutes 11) (open_session two_sessions)))) =
     [message_other]"
proof -
  have h1: "distinct (map sess_id (sessions two_sessions))"
    by (simp add: two_sessions_def session_s1_def session_s2_def)
  have h2: "distinct (map sess_session_id (sessions two_sessions))"
    by (simp add: two_sessions_def session_s1_def session_s2_def py_def)
  have m1: "session_s1 \<in> set (sessions two_sessions)" by (simp add: two_sessions_def)
  have m2: "session_s2 \<in> set (sessions two_sessions)" by (simp add: two_sessions_def)
  have old: "sess_last_active session_s1 < t0 + minutes 11 - SESSION_LIFETIME"
    by (simp add: session_s1_def minutes_def SESSION_LIFETIME_def)
  have new: "\<not> sess_last_active session_s2 < t0 + minutes 11 - SESSION_LIFETIME"
    by (simp add: session_s2_def minutes_def SESSION_LIFETIME_def)
  have ids: "sess_session_id session_s1 = py ''s1''" "sess_session_id session_s2 = py ''s2''"
    by (simp_all add: session_s1_def session_s2_def)
  have msgs: "filter (\<lambda>m. msg_session_id m = py ''s2'') (messages two_sessions) = [message_other]"
    by (simp add: two_sessions_def message_hi_def message_again_def message_other_def py_def)
  show ?thesis
    using h1 h2 m1 m2 old new ids msgs
      cleanup_expired_sessions_sweeps [OF h1 h2 m1, of "t0 + minutes 11"]
      cleanup_expired_sessions_sweeps [OF h1 h2 m2, of "t0 + minutes 11"]
    by (simp add: list_all_iff)
qed

section \<open>Session resolution\<close>

text \<open>
  What the two flows do when they reuse a session. The flow keyed by \<open>user_id\<close> returns the
  \<open>session_id\<close> of the first row stored for the user, with \<open>last_active\<close> set to \<open>now\<close>,
  when that row has been idle for at most the lifetime; the flow keyed by \<open>session_id\<close>
  returns the given id, with \<open>last_active\<close> set to \<open>now\<close>, exactly when a session with this
  id is stored and has been idle for less than the timeout.
\<close>

lemma session_reuse_by_flow:
  assumes "distinct (map sess_session_id (sessions d))"
  shows "(\<forall>s. first (filter (\<lambda>s. sess_user_id s = user_id) (sessions d)) = Some s \<and>
              now - sess_last_active s \<le> SESSION_LIFETIME \<longrightarrow>
            get_or_create_session uuid4 now user_id (open_session d) =
              (Inr (sess_session_id s),
               open_session (d\<lparr>sessions :=
                 map (\<lambda>x. if sess_id x = sess_id s then x\<lparr>sess_last_active := now\<rparr> else x)
                     (sessions d)\<rparr>))) \<and>
         ((\<exists>s \<in> set (sessions d). sess_session_id s = session_id \<and>
                                    now - sess_last_active s < SESSION_TIMEOUT) \<longleftrightarrow>
          get_message_get_or_create_session uuid4 now session_id (open_session d) =
            (Inr session_id,
             open_session (d\<lparr>sessions :=
               map (\<lambda>x. if sess_session_id x = session_id then x\<lparr>sess_last_active := now\<rparr> else x)
                   (sessions d)\<rparr>)))"
proof
  have p: "pending (open_session d) = d" by (simp add: open_session_def)
  show "\<forall>s. first (filter (\<lambda>s. sess_user_id s = user_id) (sessions d)) = Some s \<and>
              now - sess_last_active s \<le> SESSION_LIFETIME \<longrightarrow>
            get_or_create_session uuid4 now user_id (open_session d) =
              (Inr (sess_session_id s),
               open_session (d\<lparr>sessions :=
                 map (\<lambda>x. if sess_id x = sess_id s then x\<lparr>sess_last_active := now\<rparr> else x)
                     (sessions d)\<rparr>))"
    unfolding get_or_create_session_def p
    by (simp add: set_last_active_def commit_def open_session_def not_less)
next
  let ?upd = "open_session (d\<lparr>sessions :=
               map (\<lambda>x. if sess_session_id x = session_id then x\<lparr>sess_last_active := now\<rparr> else x)
                   (sessions d)\<rparr>)"
  have p: "pending (open_session d) = d" by (simp add: open_session_def)
  have u: "update_last_active now (open_session d) session_id = ?upd"
    by (simp add: update_last_active_def open_session_def commit_def)
  have c: "fst (create_session uuid4 now (open_session d)) = Inl IntegrityError"
    by (simp add: create_session_def db_add_session_def nextval_sessions_def Let_def)
  have refuted: "A \<longleftrightarrow> r = (Inr session_id, ?upd)"
    if "\<not> A" and "fst r = Inl IntegrityError"
    for A and r :: "(error + pystr) \<times> AsyncSession"
  proof -
    have "r \<noteq> (Inr session_id, ?upd)"
    proof
      assume "r = (Inr session_id, ?upd)"
      then have "fst r = Inr session_id" by simp
      then show False using that(2) by simp
    qed
    then show ?thesis using that(1) by simp
  qed
  consider (none) "filter (\<lambda>s. sess_session_id s = session_id) (sessions d) = []"
    | (one) s where "s \<in> set (sessions d)" "sess_session_id s = session_id"
        "filter (\<lambda>s. sess_session_id s = session_id) (sessions d) = [s]"
    using scalar_one_distinct [OF assms, of session_id] by blast
  then show "(\<exists>s \<in> set (sessions d). sess_session_id s = session_id \<and>
                                    now - sess_last_active s < SESSION_TIMEOUT) \<longleftrightarrow>
          get_message_get_or_create_session uuid4 now session_id (open_session d) = (Inr session_id, ?upd)"
  proof cases
    case none
    then have "\<not> (\<exists>s \<in> set (sessions d). sess_session_id s = session_id \<and>
                                    now - sess_last_active s < SESSION_TIMEOUT)"
      by (auto simp: filter_empty_conv)
    moreover have "fst (get_message_get_or_create_session uuid4 now session_id (open_session d)) =
                   Inl IntegrityError"
      using none c by (simp add: get_message_get_or_create_session_def get_session_def p
            scalar_one_or_none_def)
    ultimately show ?thesis by (rule refuted)
  next
    case one
    have only: "\<And>s'. s' \<in> set (sessions d) \<Longrightarrow> sess_session_id s' = session_id \<Longrightarrow> s' = s"
    proof -
      fix s' assume "s' \<in> set (sessions d)" "sess_session_id s' = session_id"
      then have "s' \<in> set (filter (\<lambda>s. sess_session_id s = session_id) (sessions d))" by simp
      then show "s' = s" using one(3) by simp
    qed
    show ?thesis
    proof (cases "now - sess_last_active s < SESSION_TIMEOUT")
      case True
      then have "get_message_get_or_create_session uuid4 now session_id (open_session d) =
                 (Inr session_id, ?upd)"
        using one(3) u by (simp add: get_message_get_or_create_session_def get_session_def p
              scalar_one_or_none_def)
      then show ?thesis using True one(1,2) by blast
    next
      case False
      then have e: "fst (get_message_get_or_create_session uuid4 now session_id (open_session d)) =
                 Inl IntegrityError"
        using one(3) c by (simp add: get_message_get_or_create_session_def get_session_def p
              scalar_one_or_none_def)
      have "\<not> (\<exists>s \<in> set (sessions d). sess_session_id s = session_id \<and>
                                    now - sess_last_active s < SESSION_TIMEOUT)"
        using False only by blast
      then show ?thesis using e by (rule refuted)
    qed
  qed
qed

text \<open>In the flow keyed by \<open>user_id\<close> a session idle for exactly the lifetime is reused: it
  expires when it has been idle for more than two minutes.\<close>

lemma two_minute_boundary_reuses_session:
  "\<not> (t0 + minutes 2 - sess_last_active session_s1 < SESSION_LIFETIME) \<and>
   sessions one_session = [session_s1] \<and> sess_user_id session_s1 = py ''u1'' \<and>
   get_or_create_session (py ''fresh'') (t0 + minutes 2) (py ''u1'') (open_session one_session) =
     (Inr (sess_session_id session_s1),
      open_session (one_session\<lparr>sessions := [session_s1\<lparr>sess_last_active := t0 + minutes 2\<rparr>]\<rparr>))"
  by (simp add: one_session_def session_s1_def get_or_create_session_def open_session_def
        first_def SESSION_LIFETIME_def minutes_def set_last_active_def commit_def)

text \<open>
  C2 at concrete inputs. The store holds the session \<open>s1\<close> of user \<open>u1\<close>, last active at
  \<open>t0\<close>. In the flow keyed by \<open>session_id\<close> an unknown id, and the id of the session once
  it has expired, both end in an \<open>IntegrityError\<close> with the sessions table as it was:
  \<open>create_session\<close> inserts no \<open>user_id\<close>, which the table requires. In the flow keyed by
  \<open>user_id\<close> an unknown user, and the user of the session once it has expired, get a new
  row stored, with the fresh \<open>session_id\<close> and \<open>created_at = last_active = now\<close>, but no
  \<open>session_id\<close> back: the refresh after the commit raises inside the \<open>begin\<close> block.
\<close>

theorem new_session_is_not_returned:
  "(case get_message_get_or_create_session (py ''fresh'') t0 (py ''s9'') (open_session one_session) of
      (r, db') \<Rightarrow> r = Inl IntegrityError \<and> sessions (stored db') = [session_s1]) \<and>
   (case get_message_get_or_create_session (py ''fresh'') (t0 + hours 2) (py ''s1'')
           (open_session one_session) of
      (r, db') \<Rightarrow> r = Inl IntegrityError \<and> sessions (stored db') = [session_s1]) \<and>
   (case get_or_create_session (py ''fresh'') t0 (py ''u9'') (open_session one_session) of
      (r, db') \<Rightarrow>
        r = Inl InvalidRequestError \<and>
        sessions (stored db') =
          [session_s1,
           \<lparr>sess_id = 2, sess_session_id = py ''fresh'', sess_user_id = py ''u9'',
            sess_created_at = t0, sess_last_active = t0\<rparr>]) \<and>
   (case get_or_create_session (py ''fresh'') (t0 + minutes 3) (py ''u1'') (open_session one_session) of
      (r, db') \<Rightarrow>
        r = Inl InvalidRequestError \<and>
        sessions (stored db') =
          [session_s1,
           \<lparr>sess_id = 2, sess_session_id = py ''fresh'', sess_user_id = py ''u1'',
            sess_created_at = t0 + minutes 3, sess_last_active = t0 + minutes 3\<rparr>])"
  by (simp add: get_message_get_or_create_session_def get_session_def scalar_one_or_none_def
        create_session_def get_or_create_session_def create_new_session_def db_add_session_def
        nextval_sessions_def first_def open_session_def commit_def rollback_def
        one_session_def session_s1_def py_def SESSION_TIMEOUT_def SESSION_LIFETIME_def
        hours_def minutes_def t0_def Let_def)

text \<open>The lookup by \<open>user_id\<close> takes the first row the store returns for the user. Here the
  user's first row has expired and the second is active, one minute idle: the active
  session is not reused and a third row is stored.\<close>

lemma first_row_hides_active_session:
  "sess_user_id session_s3 = py ''u1'' \<and>
   t0 + minutes 11 - sess_last_active session_s3 < SESSION_LIFETIME \<and>
   (case get_or_create_session (py ''fresh'') (t0 + minutes 11) (py ''u1'')
           (open_session expired_then_active) of
      (r, db') \<Rightarrow>
        r = Inl InvalidRequestError \<and>
        map sess_session_id (sessions (stored db')) = [py ''s1'', py ''s3'', py ''fresh''] \<and>
        map sess_last_active (sessions (stored db')) = [t0, t0 + minutes 10, t0 + minutes 11])"
  by (simp add: get_or_create_session_def create_new_session_def db_add_session_def
        nextval_sessions_def first_def open_session_def commit_def rollback_def
        expired_then_active_def session_s1_def session_s3_def py_def SESSION_LIFETIME_def
        minutes_def t0_def Let_def)

section \<open>Listing, leads and validation in the two flows\<close>

text \<open>
  C4 at a concrete input. The store returns the two messages of session \<open>s1\<close> in the order
  id 2, id 1. \<open>get_messages_for_user\<close>, whose query has no \<open>ORDER BY\<close>, returns them in
  that order, the later message first; \<open>get_message_history\<close>, which orders by id, returns
  them in increasing id.
\<close>

theorem unordered_listing_follows_storage_order:
  "map msg_id (get_messages_for_user (open_session out_of_order) (py ''s1'')) = [2, 1] \<and>
   map msg_created_at (get_messages_for_user (open_session out_of_order) (py ''s1'')) =
     [Some (t0 + minutes 1), Some t0] \<and>
   map msg_id (history_rows (py ''s1'') (open_session out_of_order)) = [1, 2]"
  by (simp add: get_messages_for_user_def history_rows_def open_session_def out_of_order_def
        message_again_def message_hi_def)

text \<open>
  C6 at a concrete input. Session \<open>s1\<close> has no lead. \<open>receive_message\<close> accepts and stores
  the first LEAD message of the session, and the leads table is still empty afterwards;
  \<open>create_message\<close> of the other flow, on the same store, commits a lead with the
  placeholder names for the session.
\<close>

theorem lead_message_creates_no_lead:
  "leads one_session = [] \<and> mc_role lead_request = LEAD \<and>
   (case receive_message t0 lead_request (open_session one_session) healthy of
      (r, db', b') \<Rightarrow>
        r = Inr (accepted (py ''s1'')) \<and>
        map msg_role (messages (stored db')) = [LEAD] \<and>
        leads (stored db') = []) \<and>
   (case create_message (py ''fresh'') t0 (open_session one_session)
           \<lparr>gm_text = py ''hi'', gm_sender = py ''u1'', gm_session_id = py ''s1''\<rparr> of
      (r, db') \<Rightarrow>
        leads (stored db') =
          [\<lparr>lead_id = 1, first_name = Some placeholder_first_name,
            last_name = Some placeholder_last_name, lead_session_id = py ''s1''\<rparr>])"
proof -
  have h1: "mc_session_id lead_request = Some (py ''s1'')" by (simp add: lead_request_def)
  have h2: "py ''s1'' \<noteq> []" by (simp add: py_def)
  have h3: "py ''s1'' \<in> sess_session_id ` set (sessions one_session)"
    by (simp add: one_session_def session_s1_def)
  have h4: "length (mc_sender lead_request) \<le> 36" by (simp add: lead_request_def py_def)
  have h5: "messages_id_seq one_session + 1 \<notin> msg_id ` set (messages one_session)"
    by (simp add: one_session_def)
  have r: "mc_role lead_request = LEAD" by (simp add: lead_request_def)
  have p: "fst (publish_to_queue md healthy) = Inr ()" for md
    by (simp add: publish_to_queue_def with_connection_def call_def healthy_def Let_def)
  have a: "case receive_message t0 lead_request (open_session one_session) healthy of
      (r, db', b') \<Rightarrow>
        r = Inr (accepted (py ''s1'')) \<and>
        map msg_role (messages (stored db')) = [LEAD] \<and>
        leads (stored db') = []"
    unfolding receive_message_accepted [OF h1 h2 h3 h4 h5]
    by (simp add: r p open_session_def one_session_def new_message_def)
  have b: "case create_message (py ''fresh'') t0 (open_session one_session)
           \<lparr>gm_text = py ''hi'', gm_sender = py ''u1'', gm_session_id = py ''s1''\<rparr> of
      (r, db') \<Rightarrow>
        leads (stored db') =
          [\<lparr>lead_id = 1, first_name = Some placeholder_first_name,
            last_name = Some placeholder_last_name, lead_session_id = py ''s1''\<rparr>]"
    by (simp add: create_message_def get_session_def scalar_one_or_none_def open_session_def
          one_session_def session_s1_def update_last_active_def commit_def rollback_def
          get_lead_by_session_def first_def create_lead_def db_add_lead_def db_add_message_def
          nextval_leads_def nextval_messages_def py_def Let_def)
  show ?thesis using a b r by (simp add: one_session_def)
qed

text \<open>
  C8 at a concrete input. The schema of the get_message flow builds a model from an empty
  text, where the schema of the messages flow refuses it; \<open>create_message\<close> then refreshes
  the session and commits a lead before the message insert fails, with an
  \<open>IntegrityError\<close> for the missing role and no validation error.
\<close>

theorem blank_text_passes_get_message_schema:
  "get_message_MessageCreate_validate [] (py ''u1'') (py ''s1'') = Inr blank_request \<and>
   MessageCreate_validate [] (py ''u1'') LEAD (Some (py ''s1'')) = Inl RequestValidationError \<and>
   (case create_message (py ''fresh'') (t0 + minutes 1) (open_session one_session) blank_request of
      (r, db') \<Rightarrow>
        r = Inl IntegrityError \<and>
        map sess_last_active (sessions (stored db')) = [t0 + minutes 1] \<and>
        map lead_session_id (leads (stored db')) = [py ''s1''] \<and>
        messages (stored db') = [])"
  by (simp add: get_message_MessageCreate_validate_def blank_request_def
        MessageCreate_validate_def validate_text_def strip_def truthy_def
        create_message_def get_session_def scalar_one_or_none_def open_session_def
        one_session_def session_s1_def update_last_active_def commit_def rollback_def
        get_lead_by_session_def first_def create_lead_def db_add_lead_def db_add_message_def
        nextval_leads_def nextval_messages_def py_def Let_def)

end
